theory Spec2Isabelle
  imports Main
begin

section \<open>fintec.data: path resolution, loading and the index catalogue\<close>

text \<open>
  A shallow embedding of \<^verbatim>\<open>src/fintec/data.py\<close>. Python strings are \<open>string\<close>
  (byte lists); the process environment is an explicit map handed to every call that reads
  it; the pandas routines the module calls are a record of functions whose results are
  sums, \<open>Inl\<close> being the exception raised, and the table that the interpolation call
  returns is computed as the library documents it.
\<close>

subsection \<open>Strings: \<^verbatim>\<open>str.lower\<close>, \<^verbatim>\<open>str.format\<close>, \<^verbatim>\<open>str.rfind\<close>\<close>

text \<open>
  \<^verbatim>\<open>str.lower\<close> on the ASCII letters; every other byte is kept. (No character outside
  ASCII lowers to one of \<open>c\<close>, \<open>s\<close>, \<open>v\<close>, so the comparison with \<open>.csv\<close> is decided
  the same way.)
\<close>

definition lower_char :: "char \<Rightarrow> char" where
  "lower_char c =
     (let n = (of_char c :: nat) in if 65 \<le> n \<and> n \<le> 90 then char_of (n + 32) else c)"

definition lower :: "string \<Rightarrow> string" where
  "lower s = map lower_char s"

text \<open>
  \<^verbatim>\<open>template.format(arg)\<close> for a template with one replacement field \<^verbatim>\<open>{}\<close> and no
  other brace, which is what every template of the module is: the field is replaced by the
  argument.
\<close>

fun format1 :: "string \<Rightarrow> string \<Rightarrow> string" where
  "format1 [] a = []"
| "format1 [c] a = [c]"
| "format1 (c # d # t) a =
     (if c = CHR ''{'' \<and> d = CHR ''}'' then a @ t else c # format1 (d # t) a)"

text \<open>\<^verbatim>\<open>p.rfind(c)\<close>: the last position of \<open>c\<close> in \<open>p\<close>, or \<open>-1\<close>.\<close>

fun rfind_from :: "string \<Rightarrow> char \<Rightarrow> int \<Rightarrow> int \<Rightarrow> int" where
  "rfind_from [] c i found = found"
| "rfind_from (x # xs) c i found = rfind_from xs c (i + 1) (if x = c then i else found)"

definition rfind :: "string \<Rightarrow> char \<Rightarrow> int" where
  "rfind p c = rfind_from p c 0 (- 1)"

subsection \<open>The environment and \<^verbatim>\<open>os.path\<close> (POSIX)\<close>

type_synonym environ = "string \<rightharpoonup> string"

definition getenv :: "environ \<Rightarrow> string \<Rightarrow> string \<Rightarrow> string" where
  "getenv env key dflt = (case env key of None \<Rightarrow> dflt | Some v \<Rightarrow> v)"

definition startswith :: "string \<Rightarrow> char \<Rightarrow> bool" where
  "startswith s c = (case s of [] \<Rightarrow> False | x # _ \<Rightarrow> x = c)"

definition endswith :: "string \<Rightarrow> char \<Rightarrow> bool" where
  "endswith s c = (case rev s of [] \<Rightarrow> False | x # _ \<Rightarrow> x = c)"

text \<open>
  \<^verbatim>\<open>posixpath.join(a, b)\<close>: an absolute \<open>b\<close> replaces \<open>a\<close>; otherwise \<open>b\<close> is appended,
  after a separator unless \<open>a\<close> is empty or already ends with one.
\<close>

definition path_join :: "string \<Rightarrow> string \<Rightarrow> string" where
  "path_join a b =
     (if startswith b CHR ''/'' then b
      else if a = [] \<or> endswith a CHR ''/'' then a @ b
      else a @ ''/'' @ b)"

text \<open>
  \<^verbatim>\<open>posixpath.splitext\<close>, that is \<^verbatim>\<open>genericpath._splitext(p, '/', None, '.')\<close>: the
  extension starts at the last dot when that dot comes after the last separator and some
  character between the two is not a dot; the loop over the leading dots is \<open>skip_dots\<close>,
  which tells whether it reached a character other than a dot.
\<close>

function skip_dots :: "string \<Rightarrow> nat \<Rightarrow> nat \<Rightarrow> bool" where
  "skip_dots p filenameIndex dotIndex =
     (if filenameIndex < dotIndex
      then (if p ! filenameIndex \<noteq> CHR ''.'' then True
            else skip_dots p (Suc filenameIndex) dotIndex)
      else False)"
  by pat_completeness auto
termination
  by (relation "measure (\<lambda>(p, filenameIndex, dotIndex). dotIndex - filenameIndex)") auto

definition splitext :: "string \<Rightarrow> string \<times> string" where
  "splitext p =
     (let sepIndex = rfind p CHR ''/'';
          dotIndex = rfind p CHR ''.''
      in if dotIndex > sepIndex \<and> skip_dots p (nat (sepIndex + 1)) (nat dotIndex)
         then (take (nat dotIndex) p, drop (nat dotIndex) p)
         else (p, []))"

subsection \<open>\<^verbatim>\<open>_data_path\<close>\<close>

definition U_FIN_DATA_BASE :: string where
  "U_FIN_DATA_BASE = ''U_FIN_DATA_BASE''"

definition data_path :: "environ \<Rightarrow> string \<Rightarrow> string" where
  "data_path env filename = path_join (getenv env U_FIN_DATA_BASE ''data'') filename"

subsection \<open>The enumeration \<^verbatim>\<open>Idx\<close>\<close>

datatype Idx = DOW | SPX | NASDAQ100 | AEX | DAX | FTSE | SHANGHAI

fun name_of :: "Idx \<Rightarrow> string" where
  "name_of DOW = ''DOW''"
| "name_of SPX = ''SPX''"
| "name_of NASDAQ100 = ''NASDAQ100''"
| "name_of AEX = ''AEX''"
| "name_of DAX = ''DAX''"
| "name_of FTSE = ''FTSE''"
| "name_of SHANGHAI = ''SHANGHAI''"

fun value_of :: "Idx \<Rightarrow> string" where
  "value_of DOW = ''us-30''"
| "value_of SPX = ''us-spx-500''"
| "value_of NASDAQ100 = ''nq-100''"
| "value_of AEX = ''netherlands-25''"
| "value_of DAX = ''germany-30''"
| "value_of FTSE = ''uk-100''"
| "value_of SHANGHAI = ''shanghai-composite''"

text \<open>The members in definition order, as iterating over the enumeration gives them.\<close>

definition members :: "Idx list" where
  "members = [DOW, SPX, NASDAQ100, AEX, DAX, FTSE, SHANGHAI]"

definition describe :: "Idx \<Rightarrow> string \<times> string" where
  "describe i = (name_of i, value_of i)"

definition Idx_filename :: "environ \<Rightarrow> Idx \<Rightarrow> string" where
  "Idx_filename env i = data_path env (format1 ''indices/{}.csv'' (lower (name_of i)))"

definition ic_historical_data_url :: "Idx \<Rightarrow> string" where
  "ic_historical_data_url i =
     format1 ''https://www.investing.com/indices/{}-historical-data'' (value_of i)"

definition init_file :: "Idx \<Rightarrow> string" where
  "init_file i = format1 ''html/{}.html'' (lower (name_of i))"

subsection \<open>Tables and the pandas routines\<close>

text \<open>
  \<^verbatim>\<open>_STRINT\<close> is a string or an integer; \<^verbatim>\<open>_IDXCOL\<close> is one of these, a sequence
  of integers, or \<^verbatim>\<open>None\<close>.
\<close>

datatype strint = StrV string | IntV int

datatype idxcol = Col strint | Cols "int list" | NoCol

text \<open>
  A table has a row index and named columns of equal length; a missing value (NaN) is
  \<open>None\<close>. The index holds \<open>'r\<close> as read and \<open>'d\<close> (date/time values) after coercion.
\<close>

record ('i, 'v) DataFrame =
  index :: "'i list"
  columns :: "(string \<times> 'v option list) list"

datatype pd_error =
  FileNotFoundError | ParserError | IndexError | ValueError | NotImplementedError
  | OtherError string

text \<open>
  The routines of pandas that the module calls. They are not code of the module. The two
  readers and the date coercion are parameters: a call either raises (\<open>Inl\<close>) or returns
  (\<open>Inr\<close>), and the file system they read is part of the parameter. \<open>i8\<close> is the
  integer the library keeps for a date/time value (its count of nanoseconds), and
  \<open>interpolate_raises\<close> tells whether the interpolation call raises on a table (as it
  does for a date index holding a missing date) and with what.
\<close>

record ('r, 'd, 'v) pandas =
  read_csv :: "string \<Rightarrow> idxcol \<Rightarrow> pd_error + ('r, 'v) DataFrame"
  read_excel :: "string \<Rightarrow> strint \<Rightarrow> idxcol \<Rightarrow> pd_error + ('r, 'v) DataFrame"
  to_datetime :: "'r list \<Rightarrow> pd_error + 'd list"
  i8 :: "'d \<Rightarrow> int"
  interpolate_raises :: "('d, 'v) DataFrame \<Rightarrow> pd_error option"

subsection \<open>\<^verbatim>\<open>DataFrame.interpolate(method='nearest', axis=0)\<close> as the library documents it\<close>

text \<open>
  The call of line 58 hands every column, with the integer values of the index, to
  \<^verbatim>\<open>scipy.interpolate.interp1d(kind='nearest')\<close> built on the present rows, and
  evaluates it at the index values of the missing rows.

  \<open>valid_pairs\<close> are the index value and the value of the present rows, in row order.
  \<open>interp1d_nearest\<close> sorts them by index value (a stable sort), answers no value
  outside the range of the present index values, and otherwise the value at the number of
  midpoints of neighbouring index values that lie below the point (a search from the
  left, so that a point on a midpoint takes the lower neighbour). Midpoints are compared
  doubled, in exact integer arithmetic.
\<close>

fun valid_pairs :: "int list \<Rightarrow> 'v option list \<Rightarrow> (int \<times> 'v) list" where
  "valid_pairs (x # xs) (Some v # ys) = (x, v) # valid_pairs xs ys"
| "valid_pairs (x # xs) (None # ys) = valid_pairs xs ys"
| "valid_pairs _ _ = []"

definition interp1d_nearest :: "(int \<times> 'v) list \<Rightarrow> int \<Rightarrow> 'v option" where
  "interp1d_nearest ps x_new =
     (let x = map fst (sort_key fst ps);
          y = map snd (sort_key fst ps)
      in if x = [] then None
         else if x_new < hd x \<or> last x < x_new then None
         else
           (let x_bds = map (\<lambda>(a, b). a + b) (zip (tl x) (butlast x));
                k = length (takeWhile (\<lambda>b. b < 2 * x_new) x_bds)
            in Some (y ! k)))"

text \<open>
  One column: a column with no present or no missing value is returned as it is.
  Otherwise a present value is kept, a missing value before the first present row stays
  missing, and every other missing value is what \<open>interp1d_nearest\<close> answers at its
  index value.
\<close>

definition interpolate_1d :: "int list \<Rightarrow> 'v option list \<Rightarrow> 'v option list" where
  "interpolate_1d indices yvalues =
     (if list_all (\<lambda>y. y = None) yvalues \<or> list_all (\<lambda>y. y \<noteq> None) yvalues then yvalues
      else
        (let first_valid = length (takeWhile (\<lambda>y. y = None) yvalues);
             terp = interp1d_nearest (valid_pairs indices yvalues)
         in map (\<lambda>(i, x, y).
                   case y of
                     Some v \<Rightarrow> Some v
                   | None \<Rightarrow> if i < first_valid then None else terp x)
              (zip [0..<length yvalues] (zip indices yvalues))))"

definition DataFrame_interpolate ::
  "('r, 'd, 'v) pandas \<Rightarrow> ('d, 'v) DataFrame \<Rightarrow> pd_error + ('d, 'v) DataFrame" where
  "DataFrame_interpolate pd df =
     (case interpolate_raises pd df of
        Some e \<Rightarrow> Inl e
      | None \<Rightarrow>
          Inr (df\<lparr>columns :=
                 map (\<lambda>(n, ys). (n, interpolate_1d (map (i8 pd) (index df)) ys))
                   (columns df)\<rparr>))"

subsection \<open>Nearest-neighbour interpolation as the spec words it\<close>

datatype tie = PreferEarlier | PreferLater





subsection \<open>The loaders\<close>

text \<open>
  A parameter with a default value is an \<open>option\<close>: \<open>None\<close> is the call that leaves
  the argument out, and \<open>arg_or\<close> puts the default in.
\<close>

definition arg_or :: "'a \<Rightarrow> 'a option \<Rightarrow> 'a" where
  "arg_or d a = (case a of None \<Rightarrow> d | Some x \<Rightarrow> x)"

definition read_data ::
  "('r, 'd, 'v) pandas \<Rightarrow> environ \<Rightarrow> string \<Rightarrow> idxcol option \<Rightarrow> strint option
     \<Rightarrow> pd_error + ('r, 'v) DataFrame" where
  "read_data pd env filename index_col sheet_name =
     (let index_col = arg_or (Col (IntV 0)) index_col;
          sheet_name = arg_or (IntV 0) sheet_name
      in if lower (snd (splitext filename)) = ''.csv''
         then read_csv pd (data_path env filename) index_col
         else read_excel pd (data_path env filename) sheet_name index_col)"

definition read_date_indexed_data ::
  "('r, 'd, 'v) pandas \<Rightarrow> environ \<Rightarrow> string \<Rightarrow> idxcol option \<Rightarrow> strint option
     \<Rightarrow> pd_error + ('d, 'v) DataFrame" where
  "read_date_indexed_data pd env filename index_col sheet_name =
     (let index_col = arg_or (Col (IntV 0)) index_col;
          sheet_name = arg_or (IntV 0) sheet_name
      in case read_data pd env filename (Some index_col) (Some sheet_name) of
           Inl e \<Rightarrow> Inl e
         | Inr df \<Rightarrow>
             (case to_datetime pd (index df) of
                Inl e \<Rightarrow> Inl e
              | Inr dates \<Rightarrow>
                  DataFrame_interpolate pd \<lparr>index = dates, columns = columns df\<rparr>))"

definition df_rates ::
  "('r, 'd, 'v) pandas \<Rightarrow> environ \<Rightarrow> string option \<Rightarrow> idxcol option \<Rightarrow> strint option
     \<Rightarrow> pd_error + ('d, 'v) DataFrame" where
  "df_rates pd env filename index_col sheet_name =
     (let filename = arg_or ''fondsen.xlsx'' filename;
          index_col = arg_or (Col (IntV 0)) index_col;
          sheet_name = arg_or (StrV ''koersen'') sheet_name
      in read_date_indexed_data pd env filename (Some index_col) (Some sheet_name))"

subsection \<open>A small world for evaluation\<close>

text \<open>
  A library over a file system with five files, each read with its first column as the
  index, kept as text:
  \<^item> \<open>data/fondsen.xlsx\<close>, with the one sheet \<open>koersen\<close>, and \<open>data/rates.CSV\<close>
    hold the same four rows on unevenly spaced, increasing dates;
  \<^item> \<open>data/unsorted.csv\<close> holds three rows whose dates are not in order, the last value
    missing;
  \<^item> \<open>data/bad.csv\<close> has an index that is not a date, on which the coercion raises;
  \<^item> \<open>data/nat.csv\<close> has an index with a missing date, on which the interpolation
    raises.
  A date is a number of days since 1970-01-01, or \<open>None\<close> for a missing date.
\<close>

definition example_frame :: "(string, int) DataFrame" where
  "example_frame =
     \<lparr>index = [''2020-01-01'', ''2020-01-02'', ''2020-01-03'', ''2020-01-10''],
      columns = [(''fund'', [Some 10, None, None, Some 12]),
                 (''late'', [None, Some 7, None, None])]\<rparr>"

definition example_unsorted_frame :: "(string, int) DataFrame" where
  "example_unsorted_frame =
     \<lparr>index = [''2020-01-01'', ''2020-01-04'', ''2020-01-02''],
      columns = [(''fund'', [Some 10, Some 12, None])]\<rparr>"

definition example_bad_frame :: "(string, int) DataFrame" where
  "example_bad_frame = \<lparr>index = [''not a date''], columns = [(''fund'', [Some 1])]\<rparr>"

definition example_nat_frame :: "(string, int) DataFrame" where
  "example_nat_frame =
     \<lparr>index = [''2020-01-01'', ''NaT''], columns = [(''fund'', [Some 1, None])]\<rparr>"

definition example_calendar :: "string \<Rightarrow> int option" where
  "example_calendar =
     map_of [(''2020-01-01'', 18262), (''2020-01-02'', 18263), (''2020-01-03'', 18264),
             (''2020-01-04'', 18265), (''2020-01-10'', 18271)]"

definition example_pandas :: "(string, int option, int) pandas" where
  "example_pandas =
     \<lparr>read_csv = (\<lambda>path index_col.
         if path = ''data/rates.CSV'' then Inr example_frame
         else if path = ''data/unsorted.csv'' then Inr example_unsorted_frame
         else if path = ''data/bad.csv'' then Inr example_bad_frame
         else if path = ''data/nat.csv'' then Inr example_nat_frame
         else Inl FileNotFoundError),
      read_excel = (\<lambda>path sheet_name index_col.
         if path \<noteq> ''data/fondsen.xlsx'' then Inl FileNotFoundError
         else if sheet_name = StrV ''koersen'' \<or> sheet_name = IntV 0 then Inr example_frame
         else Inl ValueError),
      to_datetime = (\<lambda>ix.
         if list_all (\<lambda>s. s = ''NaT'' \<or> example_calendar s \<noteq> None) ix
         then Inr (map example_calendar ix) else Inl ValueError),
      i8 = (\<lambda>d. case d of None \<Rightarrow> - 9223372036854775808
                           | Some n \<Rightarrow> n * 86400000000000),
      interpolate_raises = (\<lambda>df.
         if None \<in> set (index df) then Some NotImplementedError else None)\<rparr>"

section \<open>Properties\<close>

subsection \<open>Helper facts on strings and paths\<close>

lemma format1_indices: "format1 ''indices/{}.csv'' s = ''indices/'' @ s @ ''.csv''"
  by simp

lemma format1_url:
  "format1 ''https://www.investing.com/indices/{}-historical-data'' s =
     ''https://www.investing.com/indices/'' @ s @ ''-historical-data''"
  by simp

lemma format1_html: "format1 ''html/{}.html'' s = ''html/'' @ s @ ''.html''"
  by simp

lemma lower_name_of:
  "lower ''DOW'' = ''dow''"
  "lower ''SPX'' = ''spx''"
  "lower ''NASDAQ100'' = ''nasdaq100''"
  "lower ''AEX'' = ''aex''"
  "lower ''DAX'' = ''dax''"
  "lower ''FTSE'' = ''ftse''"
  "lower ''SHANGHAI'' = ''shanghai''"
  by code_simp+

lemma getenv_set: "getenv (env(k \<mapsto> v)) k d = v"
  by (simp add: getenv_def)

lemma getenv_unset: "getenv (env(k := None)) k d = d"
  by (simp add: getenv_def)

lemma path_join_relative:
  "\<not> startswith b CHR ''/'' \<Longrightarrow>
     path_join a b = (if a = [] \<or> endswith a CHR ''/'' then a @ b else a @ ''/'' @ b)"
  by (simp add: path_join_def)

lemma path_join_relative_inj:
  "\<not> startswith b CHR ''/'' \<Longrightarrow> \<not> startswith c CHR ''/'' \<Longrightarrow>
     (path_join a b = path_join a c) = (b = c)"
  by (simp add: path_join_relative)

lemma members_UNIV: "set members = UNIV"
proof -
  have "i \<in> set members" for i
    by (cases i) (simp_all add: members_def)
  then show ?thesis by blast
qed

subsection \<open>Helper facts on the example world and the loaders\<close>

lemma splitext_rates: "lower (snd (splitext ''rates.CSV'')) = ''.csv''"
  by code_simp
lemma splitext_fondsen: "lower (snd (splitext ''fondsen.xlsx'')) = ''.xlsx''"
  by code_simp
lemma splitext_missing: "lower (snd (splitext ''missing.csv'')) = ''.csv''"
  by code_simp

lemma splitext_bad: "lower (snd (splitext ''bad.csv'')) = ''.csv''"
  by code_simp

lemma splitext_nat: "lower (snd (splitext ''nat.csv'')) = ''.csv''"
  by code_simp

lemma data_path_default: "data_path Map.empty f = path_join ''data'' f"
  by (simp add: data_path_def getenv_def)

lemma example_paths:
  "path_join ''data'' ''rates.CSV'' = ''data/rates.CSV''"
  "path_join ''data'' ''fondsen.xlsx'' = ''data/fondsen.xlsx''"
  "path_join ''data'' ''missing.csv'' = ''data/missing.csv''"
  "path_join ''data'' ''bad.csv'' = ''data/bad.csv''"
  by (simp_all add: path_join_def startswith_def endswith_def)




subsection \<open>Helper facts on nearest-neighbour filling\<close>










subsection \<open>Helper facts on the library's interpolation\<close>



















subsection \<open>Path resolution\<close>

text \<open>
  C3. Whatever the rest of the environment holds, when \<open>U_FIN_DATA_BASE\<close> is set to
  \<open>base\<close> the resolved path is the join of \<open>base\<close> and the filename, and when it is
  unset it is the join of \<open>data\<close> and the filename. The environment is an argument of
  every call, so three calls made under three states of the variable give the three joins.
\<close>

theorem data_path_resolves:
  "data_path (env(U_FIN_DATA_BASE \<mapsto> base)) filename = path_join base filename
   \<and> data_path (env(U_FIN_DATA_BASE := None)) filename = path_join ''data'' filename
   \<and> map (\<lambda>e. data_path e filename)
        [env(U_FIN_DATA_BASE \<mapsto> b1), env(U_FIN_DATA_BASE \<mapsto> b2),
         env(U_FIN_DATA_BASE := None)]
      = [path_join b1 filename, path_join b2 filename, path_join ''data'' filename]"
  by (simp add: data_path_def getenv_set getenv_unset)

subsection \<open>The index catalogue\<close>

text \<open>
  C6. For each entry the local filename is the resolution of \<open>indices/\<close>, the lowercased
  name and \<open>.csv\<close>; with \<open>U_FIN_DATA_BASE\<close> unset the one of AEX is
  \<open>data/indices/aex.csv\<close>.
\<close>

theorem filename_resolves:
  "Idx_filename env i = data_path env (''indices/'' @ lower (name_of i) @ ''.csv'')
   \<and> Idx_filename (env(U_FIN_DATA_BASE := None)) AEX = ''data/indices/aex.csv''"
proof -
  have "data_path (env(U_FIN_DATA_BASE := None)) ''indices/aex.csv'' = ''data/indices/aex.csv''"
    by (simp add: data_path_def getenv_unset path_join_def startswith_def endswith_def)
  then show ?thesis
    by (simp add: Idx_filename_def lower_name_of del: format1.simps add: format1_indices)
qed

text \<open>
  C8. For each entry the URL of the index history is
  \<open>https://www.investing.com/indices/\<close>, the identifier and \<open>-historical-data\<close>;
  the seven URLs are listed.
\<close>

theorem ic_historical_data_url_template:
  "ic_historical_data_url i =
     ''https://www.investing.com/indices/'' @ value_of i @ ''-historical-data''
   \<and> map ic_historical_data_url members =
       [''https://www.investing.com/indices/us-30-historical-data'',
        ''https://www.investing.com/indices/us-spx-500-historical-data'',
        ''https://www.investing.com/indices/nq-100-historical-data'',
        ''https://www.investing.com/indices/netherlands-25-historical-data'',
        ''https://www.investing.com/indices/germany-30-historical-data'',
        ''https://www.investing.com/indices/uk-100-historical-data'',
        ''https://www.investing.com/indices/shanghai-composite-historical-data'']"
  by (simp add: ic_historical_data_url_def members_def)

text \<open>
  C9. For each entry the manually downloaded file is \<open>html/\<close>, the lowercased name and
  \<open>.html\<close>; the seven paths are listed. The function takes no environment, and the
  paths are not the resolved ones: \<open>Idx_filename\<close> changes with the base directory.
\<close>

theorem init_file_template:
  "init_file i = ''html/'' @ lower (name_of i) @ ''.html''
   \<and> map init_file members =
       [''html/dow.html'', ''html/spx.html'', ''html/nasdaq100.html'', ''html/aex.html'',
        ''html/dax.html'', ''html/ftse.html'', ''html/shanghai.html'']
   \<and> Idx_filename (env(U_FIN_DATA_BASE \<mapsto> ''a'')) i
       \<noteq> Idx_filename (env(U_FIN_DATA_BASE \<mapsto> ''b'')) i"
proof -
  have 1: "init_file i = ''html/'' @ lower (name_of i) @ ''.html''"
    by (simp add: init_file_def)
  have 2: "map init_file members =
       [''html/dow.html'', ''html/spx.html'', ''html/nasdaq100.html'', ''html/aex.html'',
        ''html/dax.html'', ''html/ftse.html'', ''html/shanghai.html'']"
    by (simp add: init_file_def members_def lower_name_of)
  have 3: "Idx_filename (env(U_FIN_DATA_BASE \<mapsto> ''a'')) i
             \<noteq> Idx_filename (env(U_FIN_DATA_BASE \<mapsto> ''b'')) i"
    by (simp add: Idx_filename_def data_path_def getenv_set path_join_def startswith_def
        endswith_def)
  from 1 2 3 show ?thesis by blast
qed

text \<open>
  C10. The seven identifiers are pairwise distinct, the enumeration has exactly seven
  members, and two entries have the same identifier, description, local filename (under
  any one environment), history URL or manual download filename only when they are the
  same entry.
\<close>

theorem idx_values_distinct:
  "distinct (map value_of members) \<and> length members = 7 \<and> set members = UNIV
   \<and> card (UNIV :: Idx set) = 7
   \<and> (value_of i = value_of j) = (i = j)
   \<and> (describe i = describe j) = (i = j)
   \<and> (Idx_filename env i = Idx_filename env j) = (i = j)
   \<and> (ic_historical_data_url i = ic_historical_data_url j) = (i = j)
   \<and> (init_file i = init_file j) = (i = j)"
proof -
  have d: "distinct (map value_of members)" "length members = 7" "distinct members"
    by (simp_all add: members_def)
  have c: "card (UNIV :: Idx set) = 7"
    using distinct_card [OF d(3)] by (simp add: members_UNIV d(2))
  have v: "(value_of i = value_of j) = (i = j)"
    by (cases i; cases j; simp)
  have l: "(lower (name_of i) = lower (name_of j)) = (i = j)"
    by (cases i; cases j; simp add: lower_name_of)
  have ds: "(describe i = describe j) = (i = j)"
    using v by (auto simp: describe_def)
  have rel: "\<not> startswith (''indices/'' @ s) CHR ''/''" for s
    by (simp add: startswith_def)
  have "(path_join a (''indices/'' @ s @ ''.csv'') = path_join a (''indices/'' @ t @ ''.csv''))
          = (s = t)" for a s t
    using path_join_relative_inj [OF rel rel, of a "s @ ''.csv''" "t @ ''.csv''"] by simp
  then have f: "(Idx_filename env i = Idx_filename env j) = (i = j)"
    unfolding Idx_filename_def data_path_def format1_indices by (simp only: l)
  have u: "(ic_historical_data_url i = ic_historical_data_url j) = (i = j)"
    by (simp add: ic_historical_data_url_def v)
  have h: "(init_file i = init_file j) = (i = j)"
    by (simp add: init_file_def l)
  from d(1,2) members_UNIV c v ds f u h show ?thesis by blast
qed

subsection \<open>Format dispatch and delegation\<close>

text \<open>
  C2. When the extension of the filename (the second component of \<open>splitext\<close>),
  lowercased, is \<open>.csv\<close>, the loader reads delimited text at the resolved path with the
  index column, and the sheet selector has no effect on the result; with any other
  extension it reads a workbook at the resolved path with the sheet selector and the index
  column.
\<close>

theorem read_data_dispatch:
  "(lower (snd (splitext filename)) = ''.csv'' \<longrightarrow>
      read_data pd env filename index_col sheet_name
        = read_csv pd (data_path env filename) (arg_or (Col (IntV 0)) index_col)
      \<and> read_data pd env filename index_col sheet_name
        = read_data pd env filename index_col other_sheet)
   \<and> (lower (snd (splitext filename)) \<noteq> ''.csv'' \<longrightarrow>
      read_data pd env filename index_col sheet_name
        = read_excel pd (data_path env filename) (arg_or (IntV 0) sheet_name)
            (arg_or (Col (IntV 0)) index_col))"
  by (simp add: read_data_def)

theorem read_data_dispatch_witness:
  "lower (snd (splitext ''rates.CSV'')) = ''.csv''
   \<and> read_data example_pandas Map.empty ''rates.CSV'' None (Some (StrV ''no such sheet''))
       = read_csv example_pandas ''data/rates.CSV'' (Col (IntV 0))
   \<and> read_data example_pandas Map.empty ''rates.CSV'' None (Some (StrV ''no such sheet''))
       = read_data example_pandas Map.empty ''rates.CSV'' None None
   \<and> lower (snd (splitext ''fondsen.xlsx'')) \<noteq> ''.csv''
   \<and> read_data example_pandas Map.empty ''fondsen.xlsx'' None (Some (StrV ''koersen''))
       = read_excel example_pandas ''data/fondsen.xlsx'' (StrV ''koersen'') (Col (IntV 0))"
proof -
  have a: "lower (snd (splitext ''rates.CSV'')) = ''.csv''"
    by (rule splitext_rates)
  have b: "lower (snd (splitext ''fondsen.xlsx'')) \<noteq> ''.csv''"
    by (simp add: splitext_fondsen)
  note csv = read_data_dispatch [of "''rates.CSV''" example_pandas Map.empty None
      "Some (StrV ''no such sheet'')" None, THEN conjunct1, THEN mp, OF a]
  note xls = read_data_dispatch [of "''fondsen.xlsx''" example_pandas Map.empty None
      "Some (StrV ''koersen'')" None, THEN conjunct2, THEN mp, OF b]
  have p: "data_path Map.empty ''rates.CSV'' = ''data/rates.CSV''"
    "data_path Map.empty ''fondsen.xlsx'' = ''data/fondsen.xlsx''"
    by (simp_all add: data_path_default example_paths)
  have d: "arg_or (Col (IntV 0)) None = Col (IntV 0)"
    "arg_or (IntV 0) (Some (StrV ''koersen'')) = StrV ''koersen''"
    by (simp_all add: arg_or_def)
  from a b csv [unfolded p d] xls [unfolded p d] show ?thesis by blast
qed

text \<open>
  C5. Called with all three arguments, \<open>df_rates\<close> is the general date-indexed loader on
  the same arguments, and so it is when the index column is left out (both default to
  column 0). Its own defaults are the filename \<open>fondsen.xlsx\<close> and the sheet
  \<open>koersen\<close>.
\<close>

theorem df_rates_delegates:
  "df_rates pd env (Some filename) (Some index_col) (Some sheet_name)
     = read_date_indexed_data pd env filename (Some index_col) (Some sheet_name)
   \<and> df_rates pd env (Some filename) None (Some sheet_name)
     = read_date_indexed_data pd env filename None (Some sheet_name)
   \<and> df_rates pd env None index_col' sheet_name'
     = df_rates pd env (Some ''fondsen.xlsx'') index_col' sheet_name'
   \<and> df_rates pd env filename' index_col' None
     = df_rates pd env filename' index_col' (Some (StrV ''koersen''))
   \<and> df_rates pd env None None None
     = read_date_indexed_data pd env ''fondsen.xlsx'' None (Some (StrV ''koersen''))"
  by (simp add: df_rates_def arg_or_def read_date_indexed_data_def)

subsection \<open>Errors\<close>




subsection \<open>Nearest-neighbour interpolation\<close>





end
